theory Spec2Isabelle
  imports Main "HOL-Library.Word"
begin

unbundle bit_operations_syntax

section \<open>Bytes, addresses and the byte order of the token timestamp\<close>

type_synonym byte = "8 word"
type_synonym bytes = "byte list"

text \<open>A \<^verbatim>\<open>net.Addr\<close> value: the interface has the two methods \<^verbatim>\<open>Network()\<close> and
  \<^verbatim>\<open>String()\<close>. Two addresses may differ and still print the same text.\<close>

record Addr =
  addr_Network :: string
  addr_String :: string

text \<open>The conversion \<^verbatim>\<open>[]byte(s)\<close> of a Go string: one byte per character.\<close>

definition bytes_of_string :: "string \<Rightarrow> bytes" where
  "bytes_of_string s = map of_char s"

text \<open>\<^verbatim>\<open>binary.BigEndian.PutUint32\<close> writes these four bytes at the start of its
  buffer, and \<^verbatim>\<open>binary.BigEndian.Uint32\<close> reads the first four bytes of its argument
  (both panic on a shorter buffer; the callers below check the length first).\<close>

definition PutUint32 :: "32 word \<Rightarrow> bytes" where
  "PutUint32 v = [ucast (drop_bit 24 v), ucast (drop_bit 16 v), ucast (drop_bit 8 v), ucast v]"

definition Uint32 :: "bytes \<Rightarrow> 32 word" where
  "Uint32 b = push_bit 24 (ucast (b ! 0)) OR push_bit 16 (ucast (b ! 1))
              OR push_bit 8 (ucast (b ! 2)) OR ucast (b ! 3)"

section \<open>The AEAD of the address validator\<close>

text \<open>The \<^verbatim>\<open>cipher.AEAD\<close> interface of the Go standard library, keyed once at
  construction (\<^verbatim>\<open>cipher.NewGCM\<close> over AES-128). \<open>Seal\<close> takes nonce, plaintext and
  additional data and yields the ciphertext with its tag; the destination slice it
  appends to is handled by the caller (\<open>seal_into\<close>). \<open>Open\<close> takes nonce, ciphertext
  and additional data and yields the plaintext, or \<open>None\<close> for its error.\<close>

record AEAD =
  NonceSize :: nat
  Overhead :: nat
  Seal :: "bytes \<Rightarrow> bytes \<Rightarrow> bytes \<Rightarrow> bytes"
  Open :: "bytes \<Rightarrow> bytes \<Rightarrow> bytes \<Rightarrow> bytes option"

text \<open>\<^verbatim>\<open>Seal(dst, ...)\<close> appends to \<^verbatim>\<open>dst\<close>. With \<^verbatim>\<open>dst = token[4:4]\<close> (length 0,
  capacity the rest of the token) the sealed bytes land in the token when they fit in that
  capacity; otherwise the append allocates a new array and the token keeps its zeros.\<close>

definition seal_into :: "bytes \<Rightarrow> bytes \<Rightarrow> bytes" where
  "seal_into room sealed =
     (if length sealed \<le> length room then sealed @ drop (length sealed) room else room)"

record addressValidator =
  aead :: AEAD
  nonce :: bytes

definition validity :: "64 word" where
  "validity = 10"

text \<open>\<^verbatim>\<open>addressValidator.Generate\<close>. The argument \<open>now\<close> is \<^verbatim>\<open>s.timeFn().Unix()\<close>, an
  \<^verbatim>\<open>int64\<close>. \<open>None\<close> is the run-time panic of \<^verbatim>\<open>PutUint32\<close> and of \<^verbatim>\<open>nonce[4:]\<close>
  on a nonce shorter than four bytes.\<close>

definition Generate :: "addressValidator \<Rightarrow> 64 word \<Rightarrow> Addr \<Rightarrow> bytes \<Rightarrow> bytes option" where
  "Generate s now addr odcid =
     (if length (nonce s) < 4 then None
      else
        let nonce' = PutUint32 (ucast now) @ drop 4 (nonce s);
            token = replicate (4 + length odcid + Overhead (aead s)) 0;
            token = PutUint32 (ucast now) @ drop 4 token;
            sealed = Seal (aead s) nonce' odcid (bytes_of_string (addr_String addr))
        in Some (take 4 token @ seal_into (drop 4 token) sealed))"

text \<open>The window test of \<^verbatim>\<open>Validate\<close>: \<^verbatim>\<open>issued < now-validity || issued > now\<close> on
  \<^verbatim>\<open>int64\<close> values (the subtraction wraps).\<close>

definition outside_window :: "64 word \<Rightarrow> 64 word \<Rightarrow> bool" where
  "outside_window issued now \<longleftrightarrow> issued <s now - validity \<or> now <s issued"

text \<open>\<^verbatim>\<open>addressValidator.Validate\<close>. The result \<open>Some []\<close> is the \<^verbatim>\<open>nil\<close> slice the
  source returns for an invalid token (the caller tests \<^verbatim>\<open>len(odcid) == 0\<close>);
  \<open>None\<close> is the panic of \<^verbatim>\<open>nonce[4:]\<close> on a nonce shorter than four bytes.\<close>

definition Validate :: "addressValidator \<Rightarrow> 64 word \<Rightarrow> Addr \<Rightarrow> bytes \<Rightarrow> bytes option" where
  "Validate s now addr token =
     (if length token < 4 then Some []
      else
        let issued = (ucast (Uint32 token) :: 64 word) in
        if outside_window issued now then Some []
        else if length (nonce s) < 4 then None
        else
          let nonce' = take 4 token @ drop 4 (nonce s) in
          case Open (aead s) nonce' (drop 4 token) (bytes_of_string (addr_String addr)) of
            None \<Rightarrow> Some []
          | Some odcid \<Rightarrow> Some odcid)"

text \<open>What the theorems assume of the AEAD, for nonces of its own size (AES-GCM panics on
  any other): \<open>Seal\<close> adds exactly \<open>Overhead\<close> bytes; \<open>Open\<close> undoes \<open>Seal\<close> under the same
  nonce and additional data; and, for two given additional data, a box sealed under the
  first does not open under the second.\<close>

definition aead_exact :: "AEAD \<Rightarrow> bool" where
  "aead_exact A \<longleftrightarrow>
     (\<forall>n p a. length n = NonceSize A \<longrightarrow> length (Seal A n p a) = length p + Overhead A)"

definition aead_opens :: "AEAD \<Rightarrow> bool" where
  "aead_opens A \<longleftrightarrow>
     (\<forall>n p a. length n = NonceSize A \<longrightarrow> Open A n (Seal A n p a) a = Some p)"

definition aead_binds :: "AEAD \<Rightarrow> bytes \<Rightarrow> bytes \<Rightarrow> bool" where
  "aead_binds A a a' \<longleftrightarrow>
     (\<forall>n p. length n = NonceSize A \<longrightarrow> Open A n (Seal A n p a) a' = None)"

text \<open>\<^verbatim>\<open>newAddressValidator\<close> makes the nonce \<^verbatim>\<open>aead.NonceSize()\<close> bytes long; the
  first four of them are overwritten by the timestamp.\<close>

definition wf_validator :: "addressValidator \<Rightarrow> bool" where
  "wf_validator s \<longleftrightarrow> length (nonce s) = NonceSize (aead s) \<and> 4 \<le> NonceSize (aead s)"

section \<open>Transport constants\<close>

definition ProtocolVersion :: "32 word" where
  "ProtocolVersion = 0xff000000 + 29"

definition MaxCIDLength :: nat where
  "MaxCIDLength = 20"

definition MaxPacketSize :: nat where
  "MaxPacketSize = 65527"

definition MinInitialPacketSize :: nat where
  "MinInitialPacketSize = 1200"

section \<open>Packets, connections and the endpoint state\<close>

text \<open>The routing header that \<^verbatim>\<open>Header.Decode\<close> fills in: the fields the endpoints read.\<close>

record Header =
  Type :: "8 word"
  Version :: "32 word"
  DCID :: bytes
  SCID :: bytes
  Token :: bytes

text \<open>A pooled packet. \<open>pid\<close> is the identity of the buffer (the pointer in the source);
  \<open>data\<close> is \<^verbatim>\<open>p.buf[:n]\<close>, the received datagram.\<close>

record packet =
  pid :: nat
  data :: bytes
  addr :: Addr
  header :: Header

text \<open>Modelled from the spec: the declaration of \<^verbatim>\<open>remoteConn\<close> is not in the sources.
  It holds the local CID \<open>scid\<close>, an array of the fixed maximum CID length, the remote
  address (\<open>raddr\<close>, the field \<^verbatim>\<open>addr\<close>), the protocol engine \<open>conn\<close> (nil until it
  is created) and the inbound queue \<^verbatim>\<open>recvCh\<close>, which is kept in the endpoint state.\<close>

record 'e remoteConn =
  scid :: bytes
  raddr :: Addr
  conn :: "'e option"

definition newRemoteConn :: "Addr \<Rightarrow> 'e remoteConn" where
  "newRemoteConn a = \<lparr>scid = replicate MaxCIDLength 0, raddr = a, conn = None\<rparr>"

datatype Level = LevelError | LevelInfo | LevelDebug | LevelTrace

datatype error =
  External string
  | GenerateCID error
  | ClientClosed
  | ConnIdConflict bytes
  | SendError Addr error

datatype 'e routine = HandleNewConn packet | HandleConn "'e remoteConn"

text \<open>Modelled from the spec: the declaration of \<^verbatim>\<open>localConn\<close> is not in the sources.
  The state shared by both roles: the registry \<open>peers\<close>, keyed by local CID, and the
  \<open>closing\<close> flag, both guarded by \<^verbatim>\<open>peersMu\<close>. The other fields record what the endpoint
  does: buffers taken from the pool (\<open>next_pid\<close>) and released to it (\<open>released\<close>, one
  entry per \<^verbatim>\<open>freePacket\<close> call), datagrams the socket has accepted (\<open>written\<close>),
  packets sent to a connection's \<^verbatim>\<open>recvCh\<close> (with the connection's key), routines
  started, and log lines (level and format string).\<close>

record 'e localConn =
  peers :: "bytes \<rightharpoonup> 'e remoteConn"
  closing :: bool
  next_pid :: nat
  released :: "nat list"
  written :: "(bytes \<times> Addr) list"
  queued :: "(bytes \<times> packet) list"
  started :: "'e routine list"
  logged :: "(Level \<times> string) list"

text \<open>The \<^verbatim>\<open>AddressValidator\<close> interface.\<close>

record AddressValidator =
  av_Generate :: "Addr \<Rightarrow> bytes \<Rightarrow> bytes"
  av_Validate :: "Addr \<Rightarrow> bytes \<Rightarrow> bytes"

record 'e Server = "'e localConn" +
  addrValid :: "AddressValidator option"

text \<open>What the endpoints call outside these sources: the protocol engine
  (\<^verbatim>\<open>Header.Decode\<close>, \<^verbatim>\<open>transport.NegotiateVersion\<close>, \<^verbatim>\<open>transport.Retry\<close>,
  \<^verbatim>\<open>transport.Accept\<close>, \<^verbatim>\<open>transport.Connect\<close>), the randomness source, the socket and
  the resolver. Each may fail (\<open>Inl\<close>, or \<open>Some\<close> error for \<open>WriteTo\<close>). The encoders
  take the capacity of the buffer they write to and yield the datagram written.
  \<open>conn_Send\<close> yields the datagrams the engine has to send for a connection.\<close>

record 'e env =
  Decode :: "bytes \<Rightarrow> nat \<Rightarrow> error + Header"
  NegotiateVersion :: "nat \<Rightarrow> bytes \<Rightarrow> bytes \<Rightarrow> error + bytes"
  Retry :: "nat \<Rightarrow> bytes \<Rightarrow> bytes \<Rightarrow> bytes \<Rightarrow> bytes \<Rightarrow> error + bytes"
  Accept :: "bytes \<Rightarrow> bytes \<Rightarrow> error + 'e"
  transport_Connect :: "bytes \<Rightarrow> error + 'e"
  rand :: "nat \<Rightarrow> error + bytes"
  WriteTo :: "bytes \<Rightarrow> Addr \<Rightarrow> error option"
  ResolveUDPAddr :: "string \<Rightarrow> error + Addr"
  conn_Send :: "'e remoteConn \<Rightarrow> error + bytes list"

text \<open>Modelled from the spec: the packet pool is not in the sources. \<^verbatim>\<open>newPacket\<close> hands
  out a buffer, \<^verbatim>\<open>freePacket\<close> returns one; a second release is not guarded.\<close>

definition newPacket :: "('e, 'z) localConn_scheme \<Rightarrow> nat \<times> ('e, 'z) localConn_scheme" where
  "newPacket s = (next_pid s, s\<lparr>next_pid := Suc (next_pid s)\<rparr>)"

definition freePacket :: "nat \<Rightarrow> ('e, 'z) localConn_scheme \<Rightarrow> ('e, 'z) localConn_scheme" where
  "freePacket i s = s\<lparr>released := released s @ [i]\<rparr>"

definition Log :: "Level \<Rightarrow> string \<Rightarrow> ('e, 'z) localConn_scheme \<Rightarrow> ('e, 'z) localConn_scheme" where
  "Log l fmt s = s\<lparr>logged := logged s @ [(l, fmt)]\<rparr>"

text \<open>\<^verbatim>\<open>c.recvCh <- p\<close>, \<^verbatim>\<open>go f(x)\<close> and \<^verbatim>\<open>s.socket.WriteTo(b, addr)\<close>, which
  returns its error; a datagram is sent when the write succeeds.\<close>

definition send_recvCh ::
  "'e remoteConn \<Rightarrow> packet \<Rightarrow> ('e, 'z) localConn_scheme \<Rightarrow> ('e, 'z) localConn_scheme" where
  "send_recvCh c p s = s\<lparr>queued := queued s @ [(scid c, p)]\<rparr>"

definition socket_WriteTo ::
  "'e env \<Rightarrow> bytes \<Rightarrow> Addr \<Rightarrow> ('e, 'z) localConn_scheme \<Rightarrow>
     error option \<times> ('e, 'z) localConn_scheme" where
  "socket_WriteTo E b a s =
     (case WriteTo E b a of
        Some err \<Rightarrow> (Some err, s)
      | None \<Rightarrow> (None, s\<lparr>written := written s @ [(b, a)]\<rparr>))"

definition go :: "'e routine \<Rightarrow> ('e, 'z) localConn_scheme \<Rightarrow> ('e, 'z) localConn_scheme" where
  "go r s = s\<lparr>started := started s @ [r]\<rparr>"

text \<open>\<^verbatim>\<open>s.rand(b)\<close> fills the whole of a buffer of \<open>n\<close> bytes.\<close>

definition fill :: "nat \<Rightarrow> bytes \<Rightarrow> bytes" where
  "fill n r = take n (r @ replicate n 0)"

section \<open>The server\<close>

text \<open>\<^verbatim>\<open>Server.negotiate\<close>. The scratch packet is released when the function returns
  (\<^verbatim>\<open>defer freePacket(p)\<close>).\<close>

definition negotiate :: "'e env \<Rightarrow> Addr \<Rightarrow> Header \<Rightarrow> 'e Server \<Rightarrow> 'e Server" where
  "negotiate E a h s =
     (let (p, s) = newPacket s in
      case NegotiateVersion E MaxPacketSize (SCID h) (DCID h) of
        Inl err \<Rightarrow> freePacket p (Log LevelError ''%s negotiate: %s %v'' s)
      | Inr b \<Rightarrow>
          (case socket_WriteTo E b a s of
             (Some err, s) \<Rightarrow> freePacket p (Log LevelError ''%s negotiate: %s %v'' s)
           | (None, s) \<Rightarrow>
               freePacket p
                 (Log LevelTrace ''%s sent %d bytes\<newline>%x''
                   (Log LevelDebug ''%s negotiate: newversion=%d %s'' s))))"

text \<open>\<^verbatim>\<open>Server.retry\<close>, called only when \<^verbatim>\<open>s.addrValid\<close> is not nil: \<open>v\<close> is that
  validator.\<close>

definition retry ::
  "'e env \<Rightarrow> AddressValidator \<Rightarrow> Addr \<Rightarrow> Header \<Rightarrow> 'e Server \<Rightarrow> 'e Server" where
  "retry E v a h s =
     (let (p, s) = newPacket s in
      case rand E MaxCIDLength of
        Inl err \<Rightarrow> freePacket p (Log LevelError ''%s retry: %s %v'' s)
      | Inr r \<Rightarrow>
          (let newCID = fill MaxCIDLength r;
               h = h\<lparr>Token := av_Generate v a (DCID h)\<rparr>
           in (case Retry E MaxPacketSize (SCID h) newCID (DCID h) (Token h) of
                 Inl err \<Rightarrow> freePacket p (Log LevelError ''%s retry: %s %v'' s)
               | Inr b \<Rightarrow>
                   (case socket_WriteTo E b a s of
                      (Some err, s) \<Rightarrow> freePacket p (Log LevelError ''%s retry: %s %v'' s)
                    | (None, s) \<Rightarrow>
                        freePacket p
                          (Log LevelTrace ''%s sent %d bytes\<newline>%x''
                            (Log LevelDebug ''%s retry: %v newcid=%x'' s))))))"

definition verifyToken :: "AddressValidator \<Rightarrow> Addr \<Rightarrow> bytes \<Rightarrow> bytes" where
  "verifyToken v a token = av_Validate v a token"

text \<open>\<^verbatim>\<open>Server.newConn\<close>. Its second parameter, named \<^verbatim>\<open>scid\<close> in the source, is the
  candidate for the new connection's own CID.\<close>

definition Server_newConn ::
  "'e env \<Rightarrow> Addr \<Rightarrow> bytes \<Rightarrow> bytes \<Rightarrow> error + 'e remoteConn" where
  "Server_newConn E a scid' odcid =
     (let c = newRemoteConn a in
      case (if length scid' = length (scid c) then Inr (c\<lparr>scid := scid'\<rparr>)
            else case rand E (length (scid c)) of
                   Inl err \<Rightarrow> Inl err
                 | Inr r \<Rightarrow> Inr (c\<lparr>scid := fill (length (scid c)) r\<rparr>)) of
        Inl err \<Rightarrow> Inl err
      | Inr c \<Rightarrow>
          (case Accept E (scid c) odcid of
             Inl err \<Rightarrow> Inl err
           | Inr e \<Rightarrow> Inr (c\<lparr>conn := Some e\<rparr>)))"

text \<open>Modelled from the spec: \<^verbatim>\<open>localConn.handleConn\<close>, the per-connection driver, is
  not in the sources. Its run is recorded as a started routine.\<close>

definition handleConn ::
  "'e remoteConn \<Rightarrow> ('e, 'z) localConn_scheme \<Rightarrow> ('e, 'z) localConn_scheme" where
  "handleConn c s = go (HandleConn c) s"

text \<open>The first part of \<^verbatim>\<open>Server.handleNewConn\<close>: the retry token. \<open>Inl\<close> is the
  early return, \<open>Inr\<close> carries \<^verbatim>\<open>odcid\<close> on.\<close>

definition check_token :: "'e env \<Rightarrow> packet \<Rightarrow> 'e Server \<Rightarrow> 'e Server + bytes" where
  "check_token E p s =
     (case addrValid s of
        None \<Rightarrow> Inr []
      | Some v \<Rightarrow>
          if length (Token (header p)) = 0 then
            Inl (freePacket (pid p) (retry E v (addr p) (header p) s))
          else
            let odcid = verifyToken v (addr p) (Token (header p)) in
            if length odcid = 0 then
              Inl (freePacket (pid p) (Log LevelInfo ''%s invalid retry token: %v'' s))
            else Inr odcid)"

text \<open>\<^verbatim>\<open>Server.handleNewConn\<close>. The registry is tested and updated under the exclusive
  lock, so that part is one step.\<close>

definition handleNewConn :: "'e env \<Rightarrow> packet \<Rightarrow> 'e Server \<Rightarrow> 'e Server" where
  "handleNewConn E p s =
     (case check_token E p s of
        Inl s' \<Rightarrow> s'
      | Inr odcid \<Rightarrow>
          (case Server_newConn E (addr p) (DCID (header p)) odcid of
             Inl err \<Rightarrow> freePacket (pid p) (Log LevelError ''%s create connection: %v'' s)
           | Inr c \<Rightarrow>
               if closing s then freePacket (pid p) s
               else if peers s (scid c) \<noteq> None then
                 freePacket (pid p) (Log LevelError ''%s connection id conflict scid=%x'' s)
               else
                 let s = s\<lparr>peers := (peers s)(scid c \<mapsto> c)\<rparr>;
                     s = Log LevelDebug ''%s new connection scid=%x odcid=%x'' s;
                     s = send_recvCh c p s
                 in handleConn c s))"

text \<open>\<^verbatim>\<open>Server.recv\<close>.\<close>

definition Server_recv :: "'e env \<Rightarrow> packet \<Rightarrow> 'e Server \<Rightarrow> 'e Server" where
  "Server_recv E p s =
     (case Decode E (data p) MaxCIDLength of
        Inl err \<Rightarrow> freePacket (pid p) (Log LevelDebug ''%s could not decode packet: %v'' s)
      | Inr h \<Rightarrow>
          (let p = p\<lparr>header := h\<rparr>;
               s = Log LevelDebug ''%s received packet %s'' s
           in if closing s then freePacket (pid p) s
              else (case peers s (DCID (header p)) of
                      Some c \<Rightarrow> send_recvCh c p s
                    | None \<Rightarrow>
                        if Type (header p) \<noteq> 0 \<or> length (data p) < MinInitialPacketSize then
                          freePacket (pid p)
                            (Log LevelDebug ''%s dropped invalid initial packet: %s'' s)
                        else if Version (header p) \<noteq> ProtocolVersion then
                          freePacket (pid p) (negotiate E (addr p) (header p) s)
                        else go (HandleNewConn p) s)))"

section \<open>The client\<close>

text \<open>\<^verbatim>\<open>Client.recv\<close>.\<close>

definition Client_recv :: "'e env \<Rightarrow> packet \<Rightarrow> 'e localConn \<Rightarrow> 'e localConn" where
  "Client_recv E p s =
     (case Decode E (data p) MaxCIDLength of
        Inl err \<Rightarrow> freePacket (pid p) (Log LevelInfo ''%s could not parse packet: %v'' s)
      | Inr h \<Rightarrow>
          (let p = p\<lparr>header := h\<rparr>;
               s = Log LevelDebug ''%s received packet %s'' s
           in if closing s then s
              else (case peers s (DCID (header p)) of
                      Some c \<Rightarrow> send_recvCh c p s
                    | None \<Rightarrow>
                        freePacket (pid p)
                          (Log LevelDebug ''%s ignore unknown destination packet: %s'' s))))"

text \<open>\<^verbatim>\<open>Client.newConn\<close>.\<close>

definition Client_newConn :: "'e env \<Rightarrow> string \<Rightarrow> error + 'e remoteConn" where
  "Client_newConn E a =
     (case ResolveUDPAddr E a of
        Inl err \<Rightarrow> Inl err
      | Inr udpAddr \<Rightarrow>
          (let c = newRemoteConn udpAddr in
           (case rand E (length (scid c)) of
              Inl err \<Rightarrow> Inl (GenerateCID err)
            | Inr r \<Rightarrow>
                (let c = c\<lparr>scid := fill (length (scid c)) r\<rparr> in
                 (case transport_Connect E (scid c) of
                    Inl err \<Rightarrow> Inl err
                  | Inr e \<Rightarrow> Inr (c\<lparr>conn := Some e\<rparr>))))))"

text \<open>Modelled from the spec: \<^verbatim>\<open>localConn.sendConn\<close> is not in the sources. It asks
  the engine for the connection's outbound datagrams and writes them to the shared socket,
  addressed to the connection's remote address; it returns the first error.\<close>

fun write_all ::
  "'e env \<Rightarrow> Addr \<Rightarrow> bytes list \<Rightarrow> 'e localConn \<Rightarrow> error option \<times> 'e localConn" where
  "write_all E a [] s = (None, s)"
| "write_all E a (b # bs) s =
     (case socket_WriteTo E b a s of
        (Some err, s) \<Rightarrow> (Some err, s)
      | (None, s) \<Rightarrow> write_all E a bs s)"

definition sendConn ::
  "'e env \<Rightarrow> 'e remoteConn \<Rightarrow> 'e localConn \<Rightarrow> error option \<times> 'e localConn" where
  "sendConn E c s =
     (case conn_Send E c of
        Inl err \<Rightarrow> (Some err, s)
      | Inr bs \<Rightarrow> write_all E (raddr c) bs s)"

text \<open>\<^verbatim>\<open>Client.Connect\<close>. The result is the returned error (\<open>None\<close> for nil) and the new
  state. The scratch packet is released when the function returns.\<close>

definition Connect :: "'e env \<Rightarrow> string \<Rightarrow> 'e localConn \<Rightarrow> error option \<times> 'e localConn" where
  "Connect E a s =
     (case Client_newConn E a of
        Inl err \<Rightarrow> (Some err, s)
      | Inr c \<Rightarrow>
          if closing s then (Some ClientClosed, s)
          else if peers s (scid c) \<noteq> None then (Some (ConnIdConflict (scid c)), s)
          else
            (let s = s\<lparr>peers := (peers s)(scid c \<mapsto> c)\<rparr>;
                 (p, s) = newPacket s
             in (case sendConn E c s of
                   (Some err, s) \<Rightarrow>
                     (let s = s\<lparr>peers := (peers s)(scid c := None)\<rparr>
                      in (Some (SendError (raddr c) err), freePacket p s))
                 | (None, s) \<Rightarrow> (None, freePacket p (go (HandleConn c) s)))))"

section \<open>Concrete instances\<close>

text \<open>A stand-in AEAD with the sizes of AES-GCM (12-byte nonce, 16-byte tag), for
  evaluating the validator on concrete inputs. Its tag is a checksum over nonce, plaintext
  and additional data; it offers no secrecy.\<close>

definition toy_tag :: "bytes \<Rightarrow> bytes \<Rightarrow> bytes \<Rightarrow> bytes" where
  "toy_tag n p a = replicate 16 (sum_list n + sum_list p + sum_list a)"

definition toy_aead :: AEAD where
  "toy_aead =
     \<lparr>NonceSize = 12, Overhead = 16,
      Seal = (\<lambda>n p a. p @ toy_tag n p a),
      Open = (\<lambda>n c a.
        if length c < 16 then None
        else let p = take (length c - 16) c
             in if drop (length c - 16) c = toy_tag n p a then Some p else None)\<rparr>"

definition toy_validator :: addressValidator where
  "toy_validator = \<lparr>aead = toy_aead, nonce = [1, 2, 3, 4, 5, 6, 7, 8, 9, 10, 11, 12]\<rparr>"

definition addr1 :: Addr where
  "addr1 = \<lparr>addr_Network = ''udp'', addr_String = ''10.0.0.1:443''\<rparr>"

definition addr2 :: Addr where
  "addr2 = \<lparr>addr_Network = ''udp'', addr_String = ''10.0.0.2:443''\<rparr>"

definition odcid1 :: bytes where
  "odcid1 = [1, 2, 3, 4, 5, 6, 7, 8]"

text \<open>An environment whose decoder yields the header \<open>h\<close> for every datagram, whose
  engine succeeds when \<open>ok\<close> holds and whose socket accepts a write when \<open>up\<close> holds.\<close>

definition test_env :: "Header \<Rightarrow> bool \<Rightarrow> bool \<Rightarrow> unit env" where
  "test_env h ok up =
     \<lparr>Decode = (\<lambda>b n. Inr h),
      NegotiateVersion =
        (\<lambda>n d c. if ok then Inr ([0x80, 0, 0, 0, 0] @ d @ c) else Inl (External ''short buffer'')),
      Retry =
        (\<lambda>n d c od t. if ok then Inr ([0xf0] @ d @ c @ t) else Inl (External ''short buffer'')),
      Accept = (\<lambda>c od. Inr ()),
      transport_Connect = (\<lambda>c. Inr ()),
      rand = (\<lambda>n. Inr (replicate n 0x2a)),
      WriteTo = (\<lambda>b a. if up then None else Some (External ''network is unreachable'')),
      ResolveUDPAddr = (\<lambda>a. Inr \<lparr>addr_Network = ''udp'', addr_String = a\<rparr>),
      conn_Send = (\<lambda>c. if ok then Inr [replicate 1200 1] else Inl (External ''engine''))\<rparr>"

text \<open>Headers: an Initial packet of the supported version with an 8-byte DCID and a
  20-byte SCID; the same with a 20-byte DCID; the same with another version.\<close>

definition hdr_short_dcid :: Header where
  "hdr_short_dcid =
     \<lparr>Type = 0, Version = ProtocolVersion, DCID = [1, 2, 3, 4, 5, 6, 7, 8],
      SCID = replicate 20 7, Token = []\<rparr>"

definition hdr_long_dcid :: Header where
  "hdr_long_dcid = hdr_short_dcid\<lparr>DCID := replicate 20 5\<rparr>"

definition hdr_other_version :: Header where
  "hdr_other_version = hdr_short_dcid\<lparr>Version := 1\<rparr>"

definition pkt :: "nat \<Rightarrow> packet" where
  "pkt n = \<lparr>pid = 0, data = replicate n 0, addr = addr1, header = hdr_short_dcid\<rparr>"


definition client0 :: "unit localConn" where
  "client0 =
     \<lparr>peers = Map.empty, closing = False, next_pid = 1, released = [], written = [],
      queued = [], started = [], logged = []\<rparr>"

definition server0 :: "unit Server" where
  "server0 =
     \<lparr>peers = Map.empty, closing = False, next_pid = 1, released = [], written = [],
      queued = [], started = [], logged = [], addrValid = None\<rparr>"

section \<open>Byte order and signed time\<close>

lemma Uint32_PutUint32: "Uint32 (PutUint32 v @ xs) = v"
  unfolding Uint32_def PutUint32_def
  apply simp
  apply (rule bit_word_eqI)
  subgoal for n
    apply (cases "n < 8"; cases "n < 16"; cases "n < 24")
    apply (auto simp add: bit_simps)
    done
  done

lemma length_PutUint32: "length (PutUint32 v) = 4"
  by (simp add: PutUint32_def)

lemma sint_issued: "sint (ucast (w :: 32 word) :: 64 word) = uint w"
proof -
  have "uint w < 2 ^ 32" using uint_lt2p [of w] by simp
  then have "uint w < 2 ^ 63" by simp
  moreover have "- (2 ^ 63) \<le> uint w"
  proof -
    have "- (2 ^ 63) \<le> (0::int)" by simp
    then show ?thesis using uint_ge_0 [of w] by (rule order_trans)
  qed
  moreover have "uint (ucast w :: 64 word) = uint w"
    by (rule uint_up_ucast) (simp add: is_up)
  ultimately have "signed_take_bit 63 (uint (ucast w :: 64 word)) = uint w"
    by (simp add: signed_take_bit_int_eq_self_iff)
  then show ?thesis by (simp add: sint_uint)
qed

lemma sint_minus_validity:
  assumes "10 - 2 ^ 63 \<le> sint (now :: 64 word)"
  shows "sint (now - validity) = sint now - 10"
proof -
  have "sint now < 2 ^ 63" using sint_lt [of now] by simp
  with assms show ?thesis
    by (simp add: validity_def sint_word_ariths signed_take_bit_int_eq_self)
qed

lemma outside_window_iff:
  assumes "10 - 2 ^ 63 \<le> sint now"
  shows "outside_window (ucast (ts :: 32 word)) now \<longleftrightarrow>
           uint ts < sint now - 10 \<or> sint now < uint ts"
  using assms by (simp add: outside_window_def word_sless_alt sint_issued sint_minus_validity)

lemma outside_window_future:
  assumes "sint now < uint (ts :: 32 word)"
  shows "outside_window (ucast ts) now"
  using assms by (simp add: outside_window_def word_sless_alt sint_issued)

lemma outside_window_stale:
  assumes "uint (ts :: 32 word) < sint now - 10"
  shows "outside_window (ucast ts) now"
proof -
  have "0 \<le> uint ts" by simp
  with assms have "10 < sint now" by linarith
  then have "10 - 2 ^ 63 \<le> sint now" by simp
  then show ?thesis using assms by (simp add: outside_window_iff)
qed

lemma uint_ucast_now:
  assumes "0 \<le> sint (now :: 64 word)" and "sint now < 2 ^ 32"
  shows "uint (ucast now :: 32 word) = sint now"
proof -
  have "sint now < 2 ^ 64" using assms(2) by simp
  with assms(1) have "take_bit 64 (sint now) = sint now"
    by (simp add: take_bit_int_eq_self_iff)
  then have u: "uint now = sint now" by (simp add: uint_sint)
  have "uint (ucast now :: 32 word) = take_bit 32 (uint now)"
    by (simp add: unsigned_ucast_eq)
  also have "\<dots> = sint now"
    using assms by (simp add: u take_bit_int_eq_self_iff)
  finally show ?thesis .
qed

section \<open>The validator\<close>

lemma Generate_token:
  assumes "wf_validator s"
    and "length (Seal (aead s) (PutUint32 (ucast now) @ drop 4 (nonce s)) odcid
                   (bytes_of_string (addr_String a))) = length odcid + Overhead (aead s)"
  shows "Generate s now a odcid =
           Some (PutUint32 (ucast now) @
                 Seal (aead s) (PutUint32 (ucast now) @ drop 4 (nonce s)) odcid
                   (bytes_of_string (addr_String a)))"
  using assms
  by (simp add: Generate_def wf_validator_def Let_def seal_into_def length_PutUint32)

lemma nonce_length:
  "wf_validator s \<Longrightarrow> length (PutUint32 v @ drop 4 (nonce s)) = NonceSize (aead s)"
  by (simp add: wf_validator_def length_PutUint32)

lemma Validate_Generate:
  assumes wf: "wf_validator s" and ex: "aead_exact (aead s)" and snd: "aead_opens (aead s)"
    and t0: "0 \<le> sint now" "sint now < 2 ^ 32"
    and t1: "sint now \<le> sint now'" "sint now' \<le> sint now + 10"
  shows "\<exists>token. Generate s now a odcid = Some token \<and> Validate s now' a token = Some odcid"
proof -
  let ?n = "PutUint32 (ucast now) @ drop 4 (nonce s)"
  let ?a = "bytes_of_string (addr_String a)"
  let ?tok = "PutUint32 (ucast now) @ Seal (aead s) ?n odcid ?a"
  have ln: "length ?n = NonceSize (aead s)"
    using wf by (rule nonce_length)
  have sl: "length (Seal (aead s) ?n odcid ?a) = length odcid + Overhead (aead s)"
    and op: "Open (aead s) ?n (Seal (aead s) ?n odcid ?a) ?a = Some odcid"
    using ex snd ln unfolding aead_exact_def aead_opens_def by blast+
  have g: "Generate s now a odcid = Some ?tok"
    using wf sl by (rule Generate_token)
  have ts: "uint (ucast now :: 32 word) = sint now"
    using t0 by (rule uint_ucast_now)
  have win: "\<not> outside_window (ucast (ucast now :: 32 word)) now'"
    using t0 t1 by (subst outside_window_iff) (simp_all add: ts)
  have "Validate s now' a ?tok = Some odcid"
    using wf win op
    by (simp add: Validate_def Uint32_PutUint32 length_PutUint32 wf_validator_def Let_def)
  with g show ?thesis by blast
qed

lemma toy_exact: "aead_exact toy_aead"
  by (simp add: aead_exact_def toy_aead_def toy_tag_def)

lemma toy_opens: "aead_opens toy_aead"
  by (simp add: aead_opens_def toy_aead_def toy_tag_def)

lemma toy_binds: "sum_list a \<noteq> sum_list a' \<Longrightarrow> aead_binds toy_aead a a'"
  by (simp add: aead_binds_def toy_aead_def toy_tag_def)

lemma toy_wf: "wf_validator toy_validator"
  by (simp add: wf_validator_def toy_validator_def toy_aead_def)

lemmas toy_defs =
  Generate_def Validate_def toy_validator_def toy_aead_def toy_tag_def addr1_def addr2_def
  odcid1_def PutUint32_def Uint32_def seal_into_def bytes_of_string_def outside_window_def
  validity_def Let_def word_sless_alt

text \<open>The round trip inside the range of the 32-bit timestamp: a token generated at a
  time \<open>now\<close> with \<open>0 \<le> now < 2^32\<close> validates, up to ten seconds later, to the original
  DCID.\<close>

lemma Validate_Generate_roundtrip_witness:
  "\<exists>token. Generate toy_validator 1000 addr1 odcid1 = Some token \<and>
           Validate toy_validator 1003 addr1 token = Some odcid1"
proof -
  have e: "aead_exact (aead toy_validator)"
    by (simp add: toy_validator_def toy_exact)
  have o: "aead_opens (aead toy_validator)"
    by (simp add: toy_validator_def toy_opens)
  show ?thesis
    by (rule Validate_Generate [OF toy_wf e o]) simp_all
qed

section \<open>Claims about the address validator\<close>

text \<open>C1. For every address and every non-empty original DCID, a token from
  \<open>Generate\<close> validates at the same time, for the same address, to that DCID. The code does
  not do this once the Unix time no longer fits the 32-bit timestamp (the source marks it
  \<^verbatim>\<open>TODO: Fix overflow when time > MAX_U32\<close>): at the time \<open>2^32\<close> the token carries the
  timestamp 0 and \<open>Validate\<close>, at that same time, returns nil; one second earlier the round
  trip still works.\<close>

theorem Validate_Generate_time_overflow:
  "Generate toy_validator 4294967296 addr1 odcid1 =
     Some ([0, 0, 0, 0] @ odcid1 @ replicate 16 185) \<and>
   Validate toy_validator 4294967296 addr1 ([0, 0, 0, 0] @ odcid1 @ replicate 16 185) = Some [] \<and>
   Generate toy_validator 4294967295 addr1 odcid1 =
     Some ([255, 255, 255, 255] @ odcid1 @ replicate 16 181) \<and>
   Validate toy_validator 4294967295 addr1 ([255, 255, 255, 255] @ odcid1 @ replicate 16 181)
     = Some odcid1"
  by (simp add: toy_defs)


text \<open>C2. \<open>Validate\<close> returns nil for a token shorter than the four timestamp bytes, for
  a token whose timestamp is more than ten seconds before the current time, and for a token
  whose timestamp is after the current time. A timestamp one second before the current time
  is inside the window, and \<open>Validate\<close> does not reject such a token there: it goes on to
  open the sealed part under the nonce rebuilt from the token, and its result is what
  \<open>Open\<close> decides (the plaintext, or nil on the error of \<open>Open\<close>).\<close>

theorem Validate_rejects:
  "(length token < 4 \<longrightarrow> Validate s now a token = Some []) \<and>
   (4 \<le> length token \<and> uint (Uint32 token) < sint now - 10 \<longrightarrow>
      Validate s now a token = Some []) \<and>
   (4 \<le> length token \<and> sint now < uint (Uint32 token) \<longrightarrow>
      Validate s now a token = Some []) \<and>
   (uint (Uint32 token) = sint now - 1 \<longrightarrow> \<not> outside_window (ucast (Uint32 token)) now) \<and>
   (4 \<le> length token \<and> uint (Uint32 token) = sint now - 1 \<longrightarrow>
      Validate s now a token =
        (if length (nonce s) < 4 then None
         else case Open (aead s) (take 4 token @ drop 4 (nonce s)) (drop 4 token)
                     (bytes_of_string (addr_String a)) of
                None \<Rightarrow> Some []
              | Some odcid \<Rightarrow> Some odcid))"
proof (intro conjI impI)
  assume "length token < 4"
  then show "Validate s now a token = Some []" by (simp add: Validate_def)
next
  assume "4 \<le> length token \<and> uint (Uint32 token) < sint now - 10"
  then show "Validate s now a token = Some []"
    by (simp add: Validate_def outside_window_stale)
next
  assume "4 \<le> length token \<and> sint now < uint (Uint32 token)"
  then show "Validate s now a token = Some []"
    by (simp add: Validate_def outside_window_future)
next
  assume h: "uint (Uint32 token) = sint now - 1"
  have "0 \<le> uint (Uint32 token)" by simp
  with h have "1 \<le> sint now" by linarith
  then have "10 - 2 ^ 63 \<le> sint now" by simp
  then show "\<not> outside_window (ucast (Uint32 token)) now"
    using h by (simp add: outside_window_iff)
next
  assume g: "4 \<le> length token \<and> uint (Uint32 token) = sint now - 1"
  have "0 \<le> uint (Uint32 token)" by simp
  with g have "1 \<le> sint now" by linarith
  then have "10 - 2 ^ 63 \<le> sint now" by simp
  then have "\<not> outside_window (ucast (Uint32 token)) now"
    using g by (simp add: outside_window_iff)
  with g show "Validate s now a token =
        (if length (nonce s) < 4 then None
         else case Open (aead s) (take 4 token @ drop 4 (nonce s)) (drop 4 token)
                     (bytes_of_string (addr_String a)) of
                None \<Rightarrow> Some []
              | Some odcid \<Rightarrow> Some odcid)"
    by (simp add: Validate_def Let_def)
qed

theorem Validate_rejects_witness:
  "Validate toy_validator 1000 addr1 [0, 0, 3] = Some [] \<and>
   Validate toy_validator 1000 addr1 ([0, 0, 3, 221] @ odcid1 @ replicate 16 0) = Some [] \<and>
   Validate toy_validator 1000 addr1 ([0, 0, 3, 233] @ odcid1 @ replicate 16 0) = Some [] \<and>
   \<not> outside_window (ucast (Uint32 [0, 0, 3, 231])) 1000 \<and>
   Generate toy_validator 1000 addr1 odcid1 = Some ([0, 0, 3, 232] @ odcid1 @ replicate 16 164) \<and>
   Validate toy_validator 1001 addr1 ([0, 0, 3, 232] @ odcid1 @ replicate 16 164) = Some odcid1 \<and>
   Validate toy_validator 1001 addr1 ([0, 0, 3, 232] @ odcid1 @ replicate 16 165) = Some []"
  using Validate_rejects [of "[0, 0, 3]" toy_validator 1000 addr1]
    Validate_rejects [of "[0, 0, 3, 232] @ odcid1 @ replicate 16 164" toy_validator 1001 addr1]
    Validate_rejects [of "[0, 0, 3, 232] @ odcid1 @ replicate 16 165" toy_validator 1001 addr1]
    Validate_rejects [of "[0, 0, 3, 221] @ odcid1 @ replicate 16 0" toy_validator 1000 addr1]
    Validate_rejects [of "[0, 0, 3, 233] @ odcid1 @ replicate 16 0" toy_validator 1000 addr1]
    Validate_rejects [of "[0, 0, 3, 231]" toy_validator 1000 addr1]
  by (simp add: toy_defs)

text \<open>C3. A token generated for one address does not validate for an address that prints
  differently: the address text is the additional data of the AEAD, so that opening the
  sealed DCID fails, and \<open>Validate\<close> returns nil, at whatever time it is called.\<close>

theorem Validate_other_address:
  assumes wf: "wf_validator s" and ex: "aead_exact (aead s)"
    and diff: "addr_String a2 \<noteq> addr_String a1"
    and binds: "aead_binds (aead s) (bytes_of_string (addr_String a1))
                  (bytes_of_string (addr_String a2))"
    and gen: "Generate s now a1 odcid = Some token"
  shows "Validate s now' a2 token = Some []"
proof -
  let ?n = "PutUint32 (ucast now) @ drop 4 (nonce s)"
  let ?a1 = "bytes_of_string (addr_String a1)"
  let ?a2 = "bytes_of_string (addr_String a2)"
  have ln: "length ?n = NonceSize (aead s)"
    using wf by (rule nonce_length)
  have sl: "length (Seal (aead s) ?n odcid ?a1) = length odcid + Overhead (aead s)"
    using ex ln unfolding aead_exact_def by blast
  have "Generate s now a1 odcid = Some (PutUint32 (ucast now) @ Seal (aead s) ?n odcid ?a1)"
    using wf sl by (rule Generate_token)
  with gen have tok: "token = PutUint32 (ucast now) @ Seal (aead s) ?n odcid ?a1" by simp
  have op: "Open (aead s) ?n (Seal (aead s) ?n odcid ?a1) ?a2 = None"
    using binds ln unfolding aead_binds_def by blast
  show ?thesis
    using wf op
    by (simp add: tok Validate_def length_PutUint32 wf_validator_def Let_def)
qed

theorem Validate_other_address_witness:
  "Validate toy_validator 1001 addr2 ([0, 0, 3, 232] @ odcid1 @ replicate 16 164) = Some []"
proof -
  have b: "aead_binds (aead toy_validator) (bytes_of_string (addr_String addr1))
             (bytes_of_string (addr_String addr2))"
    by (simp add: toy_validator_def toy_binds addr1_def addr2_def bytes_of_string_def)
  have e: "aead_exact (aead toy_validator)"
    by (simp add: toy_validator_def toy_exact)
  have d: "addr_String addr2 \<noteq> addr_String addr1"
    by (simp add: addr1_def addr2_def)
  have g: "Generate toy_validator 1000 addr1 odcid1 =
             Some ([0, 0, 3, 232] @ odcid1 @ replicate 16 164)"
    by (simp add: toy_defs)
  show ?thesis
    using Validate_other_address [OF toy_wf e d b g] .
qed

text \<open>C10. The token of \<open>Generate\<close> is the four bytes of the timestamp, most significant
  first, followed by the sealed original DCID with its tag; its length is
  \<open>4 + length odcid + Overhead\<close>.\<close>

theorem Generate_layout:
  assumes "wf_validator s" and "aead_exact (aead s)"
  shows "\<exists>token sealed.
           Generate s now a odcid = Some token \<and>
           token = PutUint32 (ucast now) @ sealed \<and>
           sealed = Seal (aead s) (PutUint32 (ucast now) @ drop 4 (nonce s)) odcid
                      (bytes_of_string (addr_String a)) \<and>
           length (PutUint32 (ucast now :: 32 word)) = 4 \<and>
           Uint32 token = ucast now \<and>
           length token = 4 + length odcid + Overhead (aead s)"
proof -
  let ?n = "PutUint32 (ucast now) @ drop 4 (nonce s)"
  let ?a = "bytes_of_string (addr_String a)"
  have ln: "length ?n = NonceSize (aead s)"
    using assms(1) by (rule nonce_length)
  have sl: "length (Seal (aead s) ?n odcid ?a) = length odcid + Overhead (aead s)"
    using assms(2) ln unfolding aead_exact_def by blast
  have "Generate s now a odcid = Some (PutUint32 (ucast now) @ Seal (aead s) ?n odcid ?a)"
    using assms(1) sl by (rule Generate_token)
  then show ?thesis
    by (simp add: sl length_PutUint32 Uint32_PutUint32)
qed

theorem Generate_layout_witness:
  "Generate toy_validator 1000 addr1 odcid1 = Some ([0, 0, 3, 232] @ odcid1 @ replicate 16 164) \<and>
   length ([0, 0, 3, 232] @ odcid1 @ replicate 16 164 :: bytes) =
     4 + length odcid1 + Overhead (aead toy_validator)"
proof -
  have e: "aead_exact (aead toy_validator)"
    by (simp add: toy_validator_def toy_exact)
  show ?thesis
    using Generate_layout [OF toy_wf e, of 1000 addr1 odcid1]
    by (simp add: toy_defs)
qed

section \<open>Effects of the endpoint operations\<close>

lemmas ops_defs =
  freePacket_def Log_def send_recvCh_def socket_WriteTo_def go_def newPacket_def handleConn_def

lemma negotiate_effect:
  "peers (negotiate E a h s) = peers s \<and>
   closing (negotiate E a h s) = closing s \<and>
   started (negotiate E a h s) = started s \<and>
   queued (negotiate E a h s) = queued s \<and>
   released (negotiate E a h s) = released s @ [next_pid s] \<and>
   written (negotiate E a h s) =
     written s @
       (case NegotiateVersion E MaxPacketSize (SCID h) (DCID h) of
          Inl err \<Rightarrow> []
        | Inr b \<Rightarrow> (case WriteTo E b a of None \<Rightarrow> [(b, a)] | Some err \<Rightarrow> []))"
  by (simp add: negotiate_def ops_defs split: sum.split option.split)

lemma negotiate_logged:
  "logged (negotiate E a h s) =
     logged s @
       (case NegotiateVersion E MaxPacketSize (SCID h) (DCID h) of
          Inl err \<Rightarrow> [(LevelError, ''%s negotiate: %s %v'')]
        | Inr b \<Rightarrow>
            (case WriteTo E b a of
               None \<Rightarrow> [(LevelDebug, ''%s negotiate: newversion=%d %s''),
                         (LevelTrace, ''%s sent %d bytes\<newline>%x'')]
             | Some err \<Rightarrow> [(LevelError, ''%s negotiate: %s %v'')]))"
  by (simp add: negotiate_def ops_defs split: sum.split option.split)

lemma write_all_effect:
  "peers (snd (write_all E a bs s)) = peers s \<and>
   closing (snd (write_all E a bs s)) = closing s \<and>
   started (snd (write_all E a bs s)) = started s \<and>
   queued (snd (write_all E a bs s)) = queued s \<and>
   released (snd (write_all E a bs s)) = released s \<and>
   next_pid (snd (write_all E a bs s)) = next_pid s \<and>
   logged (snd (write_all E a bs s)) = logged s \<and>
   (fst (write_all E a bs s) = None \<longrightarrow>
      written (snd (write_all E a bs s)) = written s @ map (\<lambda>b. (b, a)) bs)"
proof (induction bs arbitrary: s)
  case Nil
  show ?case by simp
next
  case (Cons b bs)
  show ?case
  proof (cases "WriteTo E b a")
    case None
    then show ?thesis
      using Cons [of "s\<lparr>written := written s @ [(b, a)]\<rparr>"]
      by (simp add: socket_WriteTo_def)
  next
    case (Some err)
    then show ?thesis by (simp add: socket_WriteTo_def)
  qed
qed

lemma sendConn_effect:
  "peers (snd (sendConn E c s)) = peers s \<and>
   closing (snd (sendConn E c s)) = closing s \<and>
   started (snd (sendConn E c s)) = started s \<and>
   queued (snd (sendConn E c s)) = queued s \<and>
   released (snd (sendConn E c s)) = released s \<and>
   next_pid (snd (sendConn E c s)) = next_pid s \<and>
   (fst (sendConn E c s) = None \<longrightarrow>
      (\<exists>bs. conn_Send E c = Inr bs \<and>
         written (snd (sendConn E c s)) = written s @ map (\<lambda>b. (b, raddr c)) bs))"
  using write_all_effect [of E "raddr c" _ s]
  by (simp add: sendConn_def split: sum.split)

lemma Server_newConn_scid:
  assumes "Server_newConn E a cid odcid = Inr c"
  shows "length (scid c) = MaxCIDLength \<and>
         (length cid = MaxCIDLength \<longrightarrow> scid c = cid) \<and>
         (length cid \<noteq> MaxCIDLength \<longrightarrow>
            (\<exists>r. rand E MaxCIDLength = Inr r \<and> scid c = fill MaxCIDLength r))"
  using assms
  by (auto simp add: Server_newConn_def newRemoteConn_def fill_def Let_def
      split: if_splits sum.splits)

section \<open>Claims about the server and the client\<close>

text \<open>C4. A datagram whose DCID is not in the server's registry and whose packet type is
  not Initial (type 0), or whose length is below \<open>MinInitialPacketSize\<close> (1200 bytes), is
  dropped: its buffer is released, no admission routine is started, nothing is written to
  the socket or queued, and the registry is unchanged, whatever else the header holds.\<close>

theorem Server_recv_drops_invalid_initial:
  assumes "Decode E (data p) MaxCIDLength = Inr h"
    and "peers s (DCID h) = None"
    and "Type h \<noteq> 0 \<or> length (data p) < 1200"
  shows "released (Server_recv E p s) = released s @ [pid p] \<and>
         peers (Server_recv E p s) = peers s \<and>
         started (Server_recv E p s) = started s \<and>
         written (Server_recv E p s) = written s \<and>
         queued (Server_recv E p s) = queued s \<and>
         next_pid (Server_recv E p s) = next_pid s"
  using assms
  by (auto simp add: Server_recv_def Let_def ops_defs MinInitialPacketSize_def)

theorem Server_recv_drops_invalid_initial_witness:
  "released (Server_recv (test_env hdr_short_dcid True True) (pkt 1199) server0) = [0] \<and>
   peers (Server_recv (test_env hdr_short_dcid True True) (pkt 1199) server0) = Map.empty \<and>
   started (Server_recv (test_env hdr_short_dcid True True) (pkt 1199) server0) = [] \<and>
   written (Server_recv (test_env hdr_short_dcid True True) (pkt 1199) server0) = []"
  using Server_recv_drops_invalid_initial
    [of "test_env hdr_short_dcid True True" "pkt 1199" hdr_short_dcid server0]
  by (simp add: test_env_def pkt_def server0_def hdr_short_dcid_def)

text \<open>C5. The claim: every datagram with an unknown DCID that passes the type and size
  test and declares another version than \<open>ProtocolVersion\<close> makes the server send exactly one
  version-negotiation reply. It fails where the engine cannot encode the reply and where
  the socket refuses the write: \<^verbatim>\<open>negotiate\<close> logs the error and returns, and no reply
  is sent.\<close>

theorem Server_recv_negotiate_counterexample:
  "Decode (test_env hdr_other_version False True) (data (pkt 1200)) MaxCIDLength
     = Inr hdr_other_version \<and>
   peers server0 (DCID hdr_other_version) = None \<and>
   Type hdr_other_version = 0 \<and>
   MinInitialPacketSize \<le> length (data (pkt 1200)) \<and>
   Version hdr_other_version \<noteq> ProtocolVersion \<and>
   written (Server_recv (test_env hdr_other_version False True) (pkt 1200) server0) = [] \<and>
   written (Server_recv (test_env hdr_other_version True False) (pkt 1200) server0) = []"
  by (simp add: Server_recv_def negotiate_def Let_def ops_defs test_env_def pkt_def server0_def
      hdr_other_version_def hdr_short_dcid_def MinInitialPacketSize_def ProtocolVersion_def)

text \<open>C5, amended. For every datagram with an unknown DCID, of type Initial, of at least
  \<open>MinInitialPacketSize\<close> bytes and of another version than \<open>ProtocolVersion\<close>, the server
  sends at most one version-negotiation reply: exactly one, the datagram the engine encodes,
  addressed to the sender, when the server is not closing and the encoding and the socket
  write succeed; none when the server is closing, and none when the encoding or the write
  fails, which is then logged as an error. In every case the original datagram is released
  once (after the scratch buffer of the reply, if the server is not closing), the registry
  is unchanged, and nothing is started or queued.\<close>

theorem Server_recv_negotiate:
  assumes "Decode E (data p) MaxCIDLength = Inr h"
    and "peers s (DCID h) = None"
    and "Type h = 0" and "1200 \<le> length (data p)"
    and "Version h \<noteq> ProtocolVersion"
  shows "written (Server_recv E p s) =
           written s @
             (if closing s then []
              else case NegotiateVersion E MaxPacketSize (SCID h) (DCID h) of
                     Inl err \<Rightarrow> []
                   | Inr b \<Rightarrow>
                       (case WriteTo E b (addr p) of None \<Rightarrow> [(b, addr p)] | Some err \<Rightarrow> [])) \<and>
         logged (Server_recv E p s) =
           logged s @ [(LevelDebug, ''%s received packet %s'')] @
             (if closing s then []
              else case NegotiateVersion E MaxPacketSize (SCID h) (DCID h) of
                     Inl err \<Rightarrow> [(LevelError, ''%s negotiate: %s %v'')]
                   | Inr b \<Rightarrow>
                       (case WriteTo E b (addr p) of
                          None \<Rightarrow> [(LevelDebug, ''%s negotiate: newversion=%d %s''),
                                    (LevelTrace, ''%s sent %d bytes\<newline>%x'')]
                        | Some err \<Rightarrow> [(LevelError, ''%s negotiate: %s %v'')])) \<and>
         released (Server_recv E p s) =
           released s @ (if closing s then [pid p] else [next_pid s, pid p]) \<and>
         peers (Server_recv E p s) = peers s \<and>
         started (Server_recv E p s) = started s \<and>
         queued (Server_recv E p s) = queued s"
proof (cases "closing s")
  case True
  with assms show ?thesis
    by (simp add: Server_recv_def Let_def freePacket_def Log_def)
next
  case False
  with assms
    negotiate_effect [of E "addr p" h "Log LevelDebug ''%s received packet %s'' s"]
    negotiate_logged [of E "addr p" h "Log LevelDebug ''%s received packet %s'' s"]
  show ?thesis
    by (simp add: Server_recv_def Let_def MinInitialPacketSize_def freePacket_def Log_def)
qed

theorem Server_recv_negotiate_witness:
  "written (Server_recv (test_env hdr_other_version True True) (pkt 1200) server0) =
     [([0x80, 0, 0, 0, 0] @ replicate 20 7 @ [1, 2, 3, 4, 5, 6, 7, 8], addr1)] \<and>
   logged (Server_recv (test_env hdr_other_version True True) (pkt 1200) server0) =
     [(LevelDebug, ''%s received packet %s''),
      (LevelDebug, ''%s negotiate: newversion=%d %s''),
      (LevelTrace, ''%s sent %d bytes\<newline>%x'')] \<and>
   released (Server_recv (test_env hdr_other_version True True) (pkt 1200) server0) = [1, 0] \<and>
   peers (Server_recv (test_env hdr_other_version True True) (pkt 1200) server0) = Map.empty \<and>
   started (Server_recv (test_env hdr_other_version True True) (pkt 1200) server0) = [] \<and>
   written (Server_recv (test_env hdr_other_version True False) (pkt 1200) server0) = [] \<and>
   logged (Server_recv (test_env hdr_other_version True False) (pkt 1200) server0) =
     [(LevelDebug, ''%s received packet %s''), (LevelError, ''%s negotiate: %s %v'')] \<and>
   released (Server_recv (test_env hdr_other_version True False) (pkt 1200) server0) = [1, 0] \<and>
   written (Server_recv (test_env hdr_other_version True True) (pkt 1200)
              (server0\<lparr>closing := True\<rparr>)) = [] \<and>
   logged (Server_recv (test_env hdr_other_version True True) (pkt 1200)
             (server0\<lparr>closing := True\<rparr>)) = [(LevelDebug, ''%s received packet %s'')] \<and>
   released (Server_recv (test_env hdr_other_version True True) (pkt 1200)
               (server0\<lparr>closing := True\<rparr>)) = [0]"
  using Server_recv_negotiate
    [of "test_env hdr_other_version True True" "pkt 1200" hdr_other_version server0]
    Server_recv_negotiate
    [of "test_env hdr_other_version True False" "pkt 1200" hdr_other_version server0]
    Server_recv_negotiate
    [of "test_env hdr_other_version True True" "pkt 1200" hdr_other_version
        "server0\<lparr>closing := True\<rparr>"]
  by (simp add: test_env_def pkt_def server0_def hdr_other_version_def hdr_short_dcid_def
      ProtocolVersion_def)




text \<open>C7. In \<open>Connect\<close>, once the connection is in the registry: if sending fails, the
  entry is removed again, so that the registry is what it was before the call, and the
  error is returned; if sending succeeds, \<open>Connect\<close> returns nil, the entry remains, the
  engine's datagrams have been written to the connection's address, and the driver has
  been started.\<close>

theorem Connect_send:
  assumes "Client_newConn E a = Inr c" and "\<not> closing s" and "peers s (scid c) = None"
  shows "(\<forall>err.
            fst (sendConn E c (snd (newPacket (s\<lparr>peers := (peers s)(scid c \<mapsto> c)\<rparr>)))) = Some err \<longrightarrow>
              fst (Connect E a s) = Some (SendError (raddr c) err) \<and>
              peers (snd (Connect E a s)) = peers s) \<and>
         (fst (sendConn E c (snd (newPacket (s\<lparr>peers := (peers s)(scid c \<mapsto> c)\<rparr>)))) = None \<longrightarrow>
            fst (Connect E a s) = None \<and>
            peers (snd (Connect E a s)) = (peers s)(scid c \<mapsto> c) \<and>
            started (snd (Connect E a s)) = started s @ [HandleConn c] \<and>
            (\<exists>bs. conn_Send E c = Inr bs \<and>
               written (snd (Connect E a s)) = written s @ map (\<lambda>b. (b, raddr c)) bs))"
proof -
  let ?s1 = "snd (newPacket (s\<lparr>peers := (peers s)(scid c \<mapsto> c)\<rparr>))"
  obtain r s2 where snd: "sendConn E c ?s1 = (r, s2)" by (cases "sendConn E c ?s1")
  have eff: "peers s2 = (peers s)(scid c \<mapsto> c)" "started s2 = started s"
    "r = None \<longrightarrow> (\<exists>bs. conn_Send E c = Inr bs \<and>
        written s2 = written s @ map (\<lambda>b. (b, raddr c)) bs)"
    using sendConn_effect [of E c ?s1] snd by (simp_all add: newPacket_def)
  have con: "Connect E a s =
    (case r of
       Some err \<Rightarrow> (Some (SendError (raddr c) err),
                     freePacket (next_pid s) (s2\<lparr>peers := (peers s2)(scid c := None)\<rparr>))
     | None \<Rightarrow> (None, freePacket (next_pid s) (go (HandleConn c) s2)))"
    using assms snd by (simp add: Connect_def Let_def newPacket_def split: option.split)
  have undone: "((peers s)(scid c \<mapsto> c))(scid c := None) = peers s"
    using assms(3) by (simp add: fun_upd_idem)
  show ?thesis
    using eff undone by (cases r) (simp_all add: con snd freePacket_def go_def)
qed

theorem Connect_send_witness:
  "Connect (test_env hdr_long_dcid True False) ''10.0.0.2:443'' client0 =
     (Some (SendError \<lparr>addr_Network = ''udp'', addr_String = ''10.0.0.2:443''\<rparr>
              (External ''network is unreachable'')),
      client0\<lparr>next_pid := 2, released := [1]\<rparr>) \<and>
   fst (Connect (test_env hdr_long_dcid True True) ''10.0.0.2:443'' client0) = None \<and>
   peers (snd (Connect (test_env hdr_long_dcid True True) ''10.0.0.2:443'' client0))
     (replicate 20 0x2a)
   = Some \<lparr>scid = replicate 20 0x2a,
           raddr = \<lparr>addr_Network = ''udp'', addr_String = ''10.0.0.2:443''\<rparr>, conn = Some ()\<rparr>"
  using Connect_send
    [of "test_env hdr_long_dcid True False" "''10.0.0.2:443''"
        "\<lparr>scid = replicate 20 0x2a,
          raddr = \<lparr>addr_Network = ''udp'', addr_String = ''10.0.0.2:443''\<rparr>, conn = Some ()\<rparr>"
        client0]
    Connect_send
    [of "test_env hdr_long_dcid True True" "''10.0.0.2:443''"
        "\<lparr>scid = replicate 20 0x2a,
          raddr = \<lparr>addr_Network = ''udp'', addr_String = ''10.0.0.2:443''\<rparr>, conn = Some ()\<rparr>"
        client0]
  by (simp add: Connect_def sendConn_def Client_newConn_def newRemoteConn_def fill_def
      MaxCIDLength_def Let_def ops_defs test_env_def client0_def)


text \<open>C8. The claim: the new connection's local CID is the client's SCID when that has
  the required length. It fails: \<^verbatim>\<open>handleNewConn\<close> passes the packet's DCID to
  \<^verbatim>\<open>newConn\<close>, not its SCID. With a 20-byte SCID and an 8-byte DCID the local CID is
  the random one; with a 20-byte SCID and a different 20-byte DCID it is the DCID.\<close>

theorem newConn_local_cid_counterexample:
  "length (SCID (header (pkt 1200))) = MaxCIDLength \<and>
   peers (handleNewConn (test_env hdr_short_dcid True True) (pkt 1200) server0)
     (SCID (header (pkt 1200))) = None \<and>
   map_option scid
     (peers (handleNewConn (test_env hdr_short_dcid True True) (pkt 1200) server0)
        (replicate 20 0x2a)) = Some (replicate 20 0x2a) \<and>
   length (SCID hdr_long_dcid) = MaxCIDLength \<and>
   peers (handleNewConn (test_env hdr_long_dcid True True)
            ((pkt 1200)\<lparr>header := hdr_long_dcid\<rparr>) server0)
     (SCID hdr_long_dcid) = None \<and>
   map_option scid
     (peers (handleNewConn (test_env hdr_long_dcid True True)
               ((pkt 1200)\<lparr>header := hdr_long_dcid\<rparr>) server0)
        (DCID hdr_long_dcid)) = Some (DCID hdr_long_dcid)"
  by (simp add: handleNewConn_def check_token_def Server_newConn_def newRemoteConn_def fill_def
      MaxCIDLength_def Let_def ops_defs test_env_def pkt_def server0_def hdr_long_dcid_def
      hdr_short_dcid_def)

text \<open>C8, amended. The local CID of a connection the server creates and registers is the
  DCID of the initial packet when that DCID has exactly \<open>MaxCIDLength\<close> bytes, and otherwise
  \<open>MaxCIDLength\<close> bytes from the randomness source.\<close>

theorem newConn_local_cid:
  assumes "check_token E p s = Inr odcid"
    and "Server_newConn E (addr p) (DCID (header p)) odcid = Inr c"
    and "\<not> closing s" and "peers s (scid c) = None"
  shows "peers (handleNewConn E p s) = (peers s)(scid c \<mapsto> c) \<and>
         length (scid c) = MaxCIDLength \<and>
         (length (DCID (header p)) = MaxCIDLength \<longrightarrow> scid c = DCID (header p)) \<and>
         (length (DCID (header p)) \<noteq> MaxCIDLength \<longrightarrow>
            (\<exists>r. rand E MaxCIDLength = Inr r \<and> scid c = fill MaxCIDLength r))"
  using assms Server_newConn_scid [OF assms(2)]
  by (simp add: handleNewConn_def Let_def ops_defs)

theorem newConn_local_cid_witness:
  "peers (handleNewConn (test_env hdr_long_dcid True True)
            ((pkt 1200)\<lparr>header := hdr_long_dcid\<rparr>) server0)
     = [replicate 20 5 \<mapsto> \<lparr>scid = replicate 20 5, raddr = addr1, conn = Some ()\<rparr>] \<and>
   peers (handleNewConn (test_env hdr_short_dcid True True) (pkt 1200) server0)
     = [replicate 20 0x2a \<mapsto> \<lparr>scid = replicate 20 0x2a, raddr = addr1, conn = Some ()\<rparr>]"
  using newConn_local_cid
    [of "test_env hdr_long_dcid True True" "(pkt 1200)\<lparr>header := hdr_long_dcid\<rparr>" server0 "[]"
        "\<lparr>scid = replicate 20 5, raddr = addr1, conn = Some ()\<rparr>"]
    newConn_local_cid
    [of "test_env hdr_short_dcid True True" "pkt 1200" server0 "[]"
        "\<lparr>scid = replicate 20 0x2a, raddr = addr1, conn = Some ()\<rparr>"]
  by (simp add: check_token_def Server_newConn_def newRemoteConn_def fill_def
      MaxCIDLength_def Let_def test_env_def pkt_def server0_def hdr_long_dcid_def
      hdr_short_dcid_def)

text \<open>C9. Every exit of the receive routine that does not queue the packet releases its
  buffer exactly once, in both roles. The client does not: when it is closing,
  \<^verbatim>\<open>Client.recv\<close> returns without \<^verbatim>\<open>freePacket\<close>, where \<^verbatim>\<open>Server.recv\<close> releases
  the buffer.\<close>

theorem Client_recv_closing_keeps_buffer:
  "closing (client0\<lparr>closing := True\<rparr>) \<and>
   released (Client_recv (test_env hdr_short_dcid True True) (pkt 1200)
               (client0\<lparr>closing := True\<rparr>)) = [] \<and>
   queued (Client_recv (test_env hdr_short_dcid True True) (pkt 1200)
             (client0\<lparr>closing := True\<rparr>)) = []"
  by (simp add: Client_recv_def Let_def ops_defs test_env_def pkt_def client0_def)

text \<open>The server on the same input releases the buffer.\<close>

lemma Server_recv_closing_releases:
  "released (Server_recv (test_env hdr_short_dcid True True) (pkt 1200)
               (server0\<lparr>closing := True\<rparr>)) = [pid (pkt 1200)]"
  by (simp add: Server_recv_def Let_def ops_defs test_env_def pkt_def server0_def)

text \<open>Every other exit of the two receive routines, and every early exit of the admission
  routine, releases the buffer once or passes it on.\<close>

lemma Server_recv_release:
  "released (Server_recv E p s) = released s \<and>
     (\<exists>h. (\<exists>k. queued (Server_recv E p s) = queued s @ [(k, p\<lparr>header := h\<rparr>)]) \<or>
           started (Server_recv E p s) = started s @ [HandleNewConn (p\<lparr>header := h\<rparr>)]) \<or>
   (\<exists>scratch. released (Server_recv E p s) = released s @ scratch @ [pid p] \<and>
      set scratch \<subseteq> {next_pid s} \<and> queued (Server_recv E p s) = queued s \<and>
      started (Server_recv E p s) = started s)"
proof (cases "Decode E (data p) MaxCIDLength")
  case (Inl err)
  then have "released (Server_recv E p s) = released s @ [] @ [pid p] \<and>
      queued (Server_recv E p s) = queued s \<and> started (Server_recv E p s) = started s"
    by (simp add: Server_recv_def ops_defs)
  then show ?thesis by (metis empty_set empty_subsetI)
next
  case (Inr h)
  let ?s = "Log LevelDebug ''%s received packet %s'' s"
  show ?thesis
  proof (cases "closing s")
    case True
    with Inr have "released (Server_recv E p s) = released s @ [] @ [pid p] \<and>
        queued (Server_recv E p s) = queued s \<and> started (Server_recv E p s) = started s"
      by (simp add: Server_recv_def Let_def ops_defs)
    then show ?thesis by (metis empty_set empty_subsetI)
  next
    case False
    show ?thesis
    proof (cases "peers s (DCID h)")
      case (Some c)
      with Inr False show ?thesis
        by (auto simp add: Server_recv_def Let_def ops_defs)
    next
      case None
      show ?thesis
      proof (cases "Type h \<noteq> 0 \<or> length (data p) < MinInitialPacketSize")
        case True
        with Inr False None
        have "released (Server_recv E p s) = released s @ [] @ [pid p] \<and>
            queued (Server_recv E p s) = queued s \<and> started (Server_recv E p s) = started s"
          by (auto simp add: Server_recv_def Let_def ops_defs)
        then show ?thesis by (metis empty_set empty_subsetI)
      next
        case small: False
        show ?thesis
        proof (cases "Version h \<noteq> ProtocolVersion")
          case True
          with Inr False None small negotiate_effect [of E "addr p" h ?s]
          have "released (Server_recv E p s) = released s @ [next_pid s] @ [pid p] \<and>
              queued (Server_recv E p s) = queued s \<and> started (Server_recv E p s) = started s"
            by (simp add: Server_recv_def Let_def freePacket_def Log_def)
          then show ?thesis by (metis list.set(1) list.set(2) subset_refl)
        next
          case ver: False
          with Inr False None small show ?thesis
            by (auto simp add: Server_recv_def Let_def ops_defs)
        qed
      qed
    qed
  qed
qed

lemma Client_recv_release:
  "\<not> closing s \<or> Decode E (data p) MaxCIDLength = Inl err \<Longrightarrow>
   released (Client_recv E p s) = released s @ [pid p] \<and> queued (Client_recv E p s) = queued s \<or>
   released (Client_recv E p s) = released s \<and>
     (\<exists>h k. queued (Client_recv E p s) = queued s @ [(k, p\<lparr>header := h\<rparr>)])"
  by (auto simp add: Client_recv_def Let_def ops_defs split: sum.splits option.splits)

lemma retry_effect:
  "peers (retry E v a h s) = peers s \<and>
   closing (retry E v a h s) = closing s \<and>
   started (retry E v a h s) = started s \<and>
   queued (retry E v a h s) = queued s \<and>
   released (retry E v a h s) = released s @ [next_pid s]"
  by (simp add: retry_def ops_defs Let_def split: sum.split option.split)

lemma handleNewConn_release:
  "(\<exists>scratch. released (handleNewConn E p s) = released s @ scratch @ [pid p] \<and>
      set scratch \<subseteq> {next_pid s} \<and> queued (handleNewConn E p s) = queued s \<and>
      started (handleNewConn E p s) = started s \<and> peers (handleNewConn E p s) = peers s) \<or>
   (\<exists>c. released (handleNewConn E p s) = released s \<and>
      queued (handleNewConn E p s) = queued s @ [(scid c, p)] \<and>
      started (handleNewConn E p s) = started s @ [HandleConn c] \<and>
      peers s (scid c) = None \<and> peers (handleNewConn E p s) = (peers s)(scid c \<mapsto> c))"
proof (cases "check_token E p s")
  case (Inl s')
  then have "(s' = freePacket (pid p) (Log LevelInfo ''%s invalid retry token: %v'' s)) \<or>
    (\<exists>v. s' = freePacket (pid p) (retry E v (addr p) (header p) s))"
    by (auto simp add: check_token_def Let_def split: option.splits if_splits)
  then show ?thesis
  proof
    assume "s' = freePacket (pid p) (Log LevelInfo ''%s invalid retry token: %v'' s)"
    with Inl have "released (handleNewConn E p s) = released s @ [] @ [pid p] \<and>
      queued (handleNewConn E p s) = queued s \<and>
      started (handleNewConn E p s) = started s \<and> peers (handleNewConn E p s) = peers s"
      by (simp add: handleNewConn_def ops_defs)
    then show ?thesis by (metis empty_set empty_subsetI)
  next
    assume "\<exists>v. s' = freePacket (pid p) (retry E v (addr p) (header p) s)"
    then obtain v where "s' = freePacket (pid p) (retry E v (addr p) (header p) s)" ..
    with Inl retry_effect [of E v "addr p" "header p" s]
    have "released (handleNewConn E p s) = released s @ [next_pid s] @ [pid p] \<and>
      queued (handleNewConn E p s) = queued s \<and>
      started (handleNewConn E p s) = started s \<and> peers (handleNewConn E p s) = peers s"
      by (simp add: handleNewConn_def freePacket_def)
    then show ?thesis by (metis list.set(1) list.set(2) subset_refl)
  qed
next
  case (Inr odcid)
  show ?thesis
  proof (cases "Server_newConn E (addr p) (DCID (header p)) odcid")
    case (Inl err)
    with Inr have "released (handleNewConn E p s) = released s @ [] @ [pid p] \<and>
      queued (handleNewConn E p s) = queued s \<and>
      started (handleNewConn E p s) = started s \<and> peers (handleNewConn E p s) = peers s"
      by (simp add: handleNewConn_def ops_defs)
    then show ?thesis by (metis empty_set empty_subsetI)
  next
    case c: (Inr c)
    show ?thesis
    proof (cases "closing s \<or> peers s (scid c) \<noteq> None")
      case True
      with Inr c have "released (handleNewConn E p s) = released s @ [] @ [pid p] \<and>
        queued (handleNewConn E p s) = queued s \<and>
        started (handleNewConn E p s) = started s \<and> peers (handleNewConn E p s) = peers s"
        by (auto simp add: handleNewConn_def ops_defs)
      then show ?thesis by (metis empty_set empty_subsetI)
    next
      case False
      with Inr c have "released (handleNewConn E p s) = released s \<and>
        queued (handleNewConn E p s) = queued s @ [(scid c, p)] \<and>
        started (handleNewConn E p s) = started s @ [HandleConn c] \<and>
        peers s (scid c) = None \<and> peers (handleNewConn E p s) = (peers s)(scid c \<mapsto> c)"
        by (simp add: handleNewConn_def ops_defs Let_def)
      then show ?thesis by blast
    qed
  qed
qed

end
